theory Spec2Isabelle
  imports Complex_Main "HOL-Library.Word"
begin

section \<open>JavaScript strings\<close>

text \<open>
  A JavaScript string is a sequence of UTF-16 code units and \<open>.length\<close> counts code
  units, so a string is a list of 16-bit words and \<open>.length\<close> is \<open>length\<close>.
  \<open>js\<close> embeds an ASCII literal of the source text.
\<close>

type_synonym jschar = "16 word"
type_synonym jsstring = "jschar list"

definition js :: "string \<Rightarrow> jsstring" where
  "js s = map (\<lambda>c. word_of_nat (of_char c)) s"

subsection \<open>Character classes of the regular expressions\<close>

text \<open>\<open>\d\<close> is \<open>[0-9]\<close>; \<open>\D\<close> is its complement.\<close>

definition isDigit :: "jschar \<Rightarrow> bool" where
  "isDigit c = (0x30 \<le> c \<and> c \<le> 0x39)"

definition isNonDigit :: "jschar \<Rightarrow> bool" where
  "isNonDigit c = (\<not> isDigit c)"

text \<open>\<open>[a-z]\<close> and \<open>[A-Z]\<close> (no \<open>i\<close> flag on the expressions that use them).\<close>

definition isLower :: "jschar \<Rightarrow> bool" where
  "isLower c = (0x61 \<le> c \<and> c \<le> 0x7A)"

definition isUpper :: "jschar \<Rightarrow> bool" where
  "isUpper c = (0x41 \<le> c \<and> c \<le> 0x5A)"

text \<open>\<open>[@$!%*?&]\<close>, the symbols of \<open>passwordRegex\<close>.\<close>

definition isSymbol :: "jschar \<Rightarrow> bool" where
  "isSymbol c = (c \<in> set (js ''@$!%*?&''))"

text \<open>
  \<open>\s\<close> is the WhiteSpace and LineTerminator code units of ECMAScript: TAB, LF, VT, FF,
  CR, SPACE, NBSP, U+1680, U+2000 to U+200A, LS, PS, U+202F, U+205F, U+3000 and the BOM.
  \<open>String.prototype.trim\<close> strips the same set.
\<close>

definition isWhiteSpace :: "jschar \<Rightarrow> bool" where
  "isWhiteSpace c =
     (c = 0x09 \<or> c = 0x0A \<or> c = 0x0B \<or> c = 0x0C \<or> c = 0x0D \<or> c = 0x20 \<or> c = 0xA0 \<or>
      c = 0x1680 \<or> (0x2000 \<le> c \<and> c \<le> 0x200A) \<or> c = 0x2028 \<or> c = 0x2029 \<or>
      c = 0x202F \<or> c = 0x205F \<or> c = 0x3000 \<or> c = 0xFEFF)"

text \<open>\<open>.\<close> without the \<open>s\<close> flag is every code unit but the line terminators.\<close>

definition isLineTerminator :: "jschar \<Rightarrow> bool" where
  "isLineTerminator c = (c = 0x0A \<or> c = 0x0D \<or> c = 0x2028 \<or> c = 0x2029)"

definition dot :: "jschar \<Rightarrow> bool" where
  "dot c = (\<not> isLineTerminator c)"

text \<open>\<open>[A-Za-z\d@$!%*?&]\<close>, the last atom of \<open>passwordRegex\<close>.\<close>

definition isPasswordChar :: "jschar \<Rightarrow> bool" where
  "isPasswordChar c = (isUpper c \<or> isLower c \<or> isDigit c \<or> isSymbol c)"

text \<open>\<open>[a-zA-Z\s]\<close>, the class of \<open>nameRegex\<close>.\<close>

definition isNameChar :: "jschar \<Rightarrow> bool" where
  "isNameChar c = (isLower c \<or> isUpper c \<or> isWhiteSpace c)"

subsection \<open>Regular expressions\<close>

text \<open>
  The fragment of ECMAScript regular expressions that the validation module uses: a
  character class, concatenation, \<open>C*\<close> for a class \<open>C\<close>, the lookahead \<open>(?=r)\<close> and the
  end anchor \<open>$\<close> (no \<open>m\<close> flag: end of input only). \<open>rests r s\<close> lists, in the
  backtracking order of the matcher (greedy first), the remainders of \<open>s\<close> after each way
  \<open>r\<close> can match a prefix of \<open>s\<close>.
\<close>

datatype regex =
    Cls "jschar \<Rightarrow> bool"
  | Cat regex regex
  | Many "jschar \<Rightarrow> bool"
  | Ahead regex
  | Eoi
  | Eps

fun rests :: "regex \<Rightarrow> jsstring \<Rightarrow> jsstring list" where
  "rests (Cls P) [] = []"
| "rests (Cls P) (c # cs) = (if P c then [cs] else [])"
| "rests (Cat a b) s = concat (map (rests b) (rests a s))"
| "rests (Many P) [] = [[]]"
| "rests (Many P) (c # cs) = (if P c then rests (Many P) cs @ [c # cs] else [c # cs])"
| "rests (Ahead a) s = (if rests a s = [] then [] else [s])"
| "rests Eoi s = (if s = [] then [[]] else [])"
| "rests Eps s = [s]"

text \<open>\<open>r{n}\<close> and \<open>C+\<close>.\<close>

fun exactly :: "nat \<Rightarrow> regex \<Rightarrow> regex" where
  "exactly 0 r = Eps"
| "exactly (Suc n) r = Cat r (exactly n r)"

definition Many1 :: "(jschar \<Rightarrow> bool) \<Rightarrow> regex" where
  "Many1 P = Cat (Cls P) (Many P)"

text \<open>
  \<open>/^r/.test(s)\<close> for an expression without the \<open>g\<close>, \<open>y\<close> and \<open>m\<close> flags: \<open>test\<close>
  tries every start index, and behind \<open>^\<close> only index 0 can match, so the result is
  whether \<open>r\<close> matches a prefix of \<open>s\<close>. Every expression of the module starts with \<open>^\<close>.
\<close>

definition test_anchored :: "regex \<Rightarrow> jsstring \<Rightarrow> bool" where
  "test_anchored r s = (rests r s \<noteq> [])"

section \<open>Validation utilities (utils/validation)\<close>

text \<open>\<^verbatim>\<open>/^(?=.*[a-z])(?=.*[A-Z])(?=.*\d)(?=.*[@$!%*?&])[A-Za-z\d@$!%*?&]/\<close>\<close>

definition passwordRegex :: regex where
  "passwordRegex =
     Cat (Ahead (Cat (Many dot) (Cls isLower)))
    (Cat (Ahead (Cat (Many dot) (Cls isUpper)))
    (Cat (Ahead (Cat (Many dot) (Cls isDigit)))
    (Cat (Ahead (Cat (Many dot) (Cls isSymbol)))
         (Cls isPasswordChar))))"

text \<open>\<^verbatim>\<open>/^[a-zA-Z\s]+$/\<close>\<close>

definition nameRegex :: regex where
  "nameRegex = Cat (Many1 isNameChar) Eoi"

text \<open>\<^verbatim>\<open>/^\d{6}$/\<close>\<close>

definition otpRegex :: regex where
  "otpRegex = Cat (exactly 6 (Cls isDigit)) Eoi"

definition validatePassword :: "jsstring \<Rightarrow> bool" where
  "validatePassword password = (length password \<ge> 8 \<and> test_anchored passwordRegex password)"

definition validateName :: "jsstring \<Rightarrow> bool" where
  "validateName name = (length name \<ge> 2 \<and> length name \<le> 50 \<and> test_anchored nameRegex name)"

definition validateOTP :: "jsstring \<Rightarrow> bool" where
  "validateOTP otp = (length otp = 6 \<and> test_anchored otpRegex otp)"

text \<open>
  The spec's wording of the two validators it describes by their content, to compare
  with the code: a letter is \<open>A\<close> to \<open>Z\<close> or \<open>a\<close> to \<open>z\<close>, a space is U+0020.
\<close>

definition isLetter :: "jschar \<Rightarrow> bool" where
  "isLetter c = (isLower c \<or> isUpper c)"

definition spec_validatePassword :: "jsstring \<Rightarrow> bool" where
  "spec_validatePassword s =
     (length s \<ge> 8 \<and> list_ex isLower s \<and> list_ex isUpper s \<and> list_ex isDigit s \<and>
      list_ex isSymbol s)"

definition spec_validateName :: "jsstring \<Rightarrow> bool" where
  "spec_validateName s =
     (2 \<le> length s \<and> length s \<le> 50 \<and> list_all (\<lambda>c. isLetter c \<or> c = 0x20) s)"

section \<open>API client (utils/api)\<close>

text \<open>
  An axios response with its status and body; an axios error, whose \<open>response\<close> is
  undefined when no reply arrived; a settled request promise. \<open>'d\<close> is the body of a
  reply that fulfils the promise, \<open>'e\<close> the body of one that rejects it.
\<close>

record 'd response =
  status :: int
  data :: 'd

datatype 'e axios_error = AxiosError (error_response: "'e response option")

datatype ('d, 'e) settled = Fulfilled "'d response" | Rejected "'e axios_error"

text \<open>What the interceptors touch of the browser: \<open>localStorage\<close> and \<open>window.location.href\<close>.\<close>

record browser =
  localStorage :: "jsstring \<rightharpoonup> jsstring"
  location_href :: jsstring

definition removeItem :: "jsstring \<Rightarrow> browser \<Rightarrow> browser" where
  "removeItem k b = b\<lparr>localStorage := (localStorage b)(k := None)\<rparr>"

text \<open>
  The two handlers of \<open>api.interceptors.response.use\<close>. The second one ends in
  \<open>Promise.reject(error)\<close>: the promise stays rejected with the same error.
\<close>

definition response_onFulfilled :: "'d response \<Rightarrow> 'd response" where
  "response_onFulfilled r = r"

definition response_onRejected :: "'e axios_error \<Rightarrow> browser \<Rightarrow> browser \<times> ('d, 'e) settled" where
  "response_onRejected error b =
     (let b' = (if map_option status (error_response error) = Some 401
                then (removeItem (js ''token'') b)\<lparr>location_href := js ''/signin''\<rparr>
                else b)
      in (b', Rejected error))"

text \<open>
  How axios settles a request: the instance is created without \<open>validateStatus\<close>, so
  the library's default decides (fulfilled for a status from 200 to 299, rejected with
  the response otherwise), and a request that got no reply is rejected with no response.
  Then the interceptor's handler for that outcome runs.
\<close>

datatype 'd reply = NoReply | Reply "'d response"

definition validateStatus :: "int \<Rightarrow> bool" where
  "validateStatus s = (200 \<le> s \<and> s < 300)"

definition settle :: "'d reply \<Rightarrow> ('d, 'd) settled" where
  "settle rp =
     (case rp of
        NoReply \<Rightarrow> Rejected (AxiosError None)
      | Reply r \<Rightarrow> if validateStatus (status r) then Fulfilled r else Rejected (AxiosError (Some r)))"

definition response_interceptor :: "('d, 'e) settled \<Rightarrow> browser \<Rightarrow> browser \<times> ('d, 'e) settled" where
  "response_interceptor p b =
     (case p of
        Fulfilled r \<Rightarrow> (b, Fulfilled (response_onFulfilled r))
      | Rejected error \<Rightarrow> response_onRejected error b)"

definition receive :: "'d reply \<Rightarrow> browser \<Rightarrow> browser \<times> ('d, 'd) settled" where
  "receive rp b = response_interceptor (settle rp) b"

section \<open>What a screen does besides updating its state\<close>

text \<open>
  A handler returns the screen's new state and, in order, what it did to the outside:
  the requests it issued through \<open>api\<close>, its toasts, the session's \<open>login\<close> and the
  router's \<open>navigate\<close>. The handler's \<open>api\<close> argument is the request promise as the
  handler's \<open>await\<close> sees it, after the interceptors.
\<close>

datatype request = Post string "(string \<times> jsstring) list"

text \<open>
  A toast's text: a literal of the source, the server's message, or the template
  \<^verbatim>\<open>`Please wait ${remainingTime} seconds before requesting another OTP`\<close>.
\<close>

datatype toast_text = Lit string | ServerMessage jsstring | PleaseWait int

record User =
  user_name :: jsstring
  user_email :: jsstring
  user_dateOfBirth :: "jsstring option"

datatype event =
    ApiCall request
  | ToastError toast_text
  | ToastSuccess toast_text
  | Login jsstring User
  | Navigate string

definition network_calls :: "event list \<Rightarrow> request list" where
  "network_calls evs = concat (map (\<lambda>e. case e of ApiCall r \<Rightarrow> [r] | _ \<Rightarrow> []) evs)"

text \<open>
  The body of an error reply: \<open>message\<close>, and the validation \<open>errors\<close> as pairs of
  \<open>path\<close> and \<open>msg\<close>. \<open>message_or e d\<close> is \<^verbatim>\<open>error.response?.data?.message || d\<close>:
  an empty message is falsy.
\<close>

record err_data =
  message :: "jsstring option"
  errors :: "(jsstring \<times> jsstring) list option"

type_synonym 'd api_result = "('d, err_data) settled"

definition message_or :: "err_data axios_error \<Rightarrow> string \<Rightarrow> toast_text" where
  "message_or error d =
     (case error_response error of
        None \<Rightarrow> Lit d
      | Some r \<Rightarrow>
          (case message (data r) of
             None \<Rightarrow> Lit d
           | Some m \<Rightarrow> if m = [] then Lit d else ServerMessage m))"

section \<open>Sign-in and sign-up screens (pages/SignIn, pages/SignUp)\<close>

text \<open>The \<open>useState\<close> cells, the same six in both components, and their initial values.\<close>

record auth_screen =
  isLoading :: bool
  showOTP :: bool
  otp :: jsstring
  userEmail :: jsstring
  otpRequestCount :: nat
  lastOtpRequest :: "int option"

definition auth_screen_init :: auth_screen where
  "auth_screen_init =
     \<lparr>isLoading = False, showOTP = False, otp = [], userEmail = [],
      otpRequestCount = 0, lastOtpRequest = None\<rparr>"

text \<open>
  \<^verbatim>\<open>Math.ceil((lastOtpRequest.getTime() + 60 * 1000 - now.getTime()) / 1000)\<close>; a
  \<open>Date\<close> is its time value, an integer count of milliseconds.
\<close>

definition remainingTime :: "int \<Rightarrow> int \<Rightarrow> int" where
  "remainingTime lastRequest now = \<lceil>real_of_int (lastRequest + 60 * 1000 - now) / 1000\<rceil>"

text \<open>
  \<open>handleOTPRequest\<close>, the same text in both components. \<open>now\<close> is the clock read by
  \<open>new Date()\<close>.
\<close>

definition handleOTPRequest ::
  "(request \<Rightarrow> unit api_result) \<Rightarrow> int \<Rightarrow> auth_screen \<Rightarrow> auth_screen \<times> event list" where
  "handleOTPRequest api now st =
     (if userEmail st = [] then (st, [ToastError (Lit ''Please enter your email first'')])
      else
        let oneMinuteAgo = now - 60 * 1000 in
        if (case lastOtpRequest st of None \<Rightarrow> False | Some t \<Rightarrow> t > oneMinuteAgo)
        then (st, [ToastError (PleaseWait (remainingTime (the (lastOtpRequest st)) now))])
        else if otpRequestCount st \<ge> 5
        then (st, [ToastError (Lit ''Too many OTP requests. Please try again later.'')])
        else
          let req = Post ''/auth/request-otp'' [(''email'', userEmail st)] in
          (case api req of
             Fulfilled r \<Rightarrow>
               (st\<lparr>otpRequestCount := otpRequestCount st + 1, lastOtpRequest := Some now\<rparr>,
                [ApiCall req, ToastSuccess (Lit ''OTP sent to your email'')])
           | Rejected error \<Rightarrow>
               (st, [ApiCall req, ToastError (message_or error ''Failed to send OTP'')])))"

text \<open>The resend button's \<open>disabled\<close> attribute and its label.\<close>

definition resend_disabled :: "auth_screen \<Rightarrow> bool" where
  "resend_disabled st = (otpRequestCount st \<ge> 5)"

definition resend_label :: "auth_screen \<Rightarrow> string" where
  "resend_label st = (if otpRequestCount st \<ge> 5 then ''OTP limit reached'' else ''Resend OTP'')"

text \<open>\<open>handleOTPVerification\<close>, the same text in both components.\<close>

record auth_payload =
  token :: jsstring
  user :: User

definition handleOTPVerification ::
  "(request \<Rightarrow> auth_payload api_result) \<Rightarrow> auth_screen \<Rightarrow> auth_screen \<times> event list" where
  "handleOTPVerification api st =
     (if otp st = [] \<or> userEmail st = []
      then (st, [ToastError (Lit ''Please enter OTP and email'')])
      else if length (otp st) \<noteq> 6
      then (st, [ToastError (Lit ''OTP must be exactly 6 digits'')])
      else if \<not> test_anchored otpRegex (otp st)
      then (st, [ToastError (Lit ''OTP must contain only numbers'')])
      else
        let req = Post ''/auth/verify-otp'' [(''email'', userEmail st), (''otp'', otp st)] in
        case api req of
          Fulfilled r \<Rightarrow>
            (st, [ApiCall req, Login (token (data r)) (user (data r)),
                  ToastSuccess (Lit ''Email verified successfully!''), Navigate ''/welcome''])
        | Rejected error \<Rightarrow>
            (st, [ApiCall req, ToastError (message_or error ''OTP verification failed'')]))"

text \<open>
  The OTP field's \<open>onChange\<close>: \<^verbatim>\<open>e.target.value.replace(/\D/g, '')\<close>, every match of
  the class replaced, then \<open>setOtp\<close>.
\<close>

definition replace_all :: "(jschar \<Rightarrow> bool) \<Rightarrow> jsstring \<Rightarrow> jsstring \<Rightarrow> jsstring" where
  "replace_all P rep s = concat (map (\<lambda>c. if P c then rep else [c]) s)"

definition otp_onChange :: "jsstring \<Rightarrow> auth_screen \<Rightarrow> auth_screen" where
  "otp_onChange raw st = st\<lparr>otp := replace_all isNonDigit [] raw\<rparr>"

text \<open>The back button, and the sign-in screen's email field.\<close>

definition back_onClick :: "auth_screen \<Rightarrow> auth_screen" where
  "back_onClick st = st\<lparr>showOTP := False\<rparr>"

definition email_onChange :: "jsstring \<Rightarrow> auth_screen \<Rightarrow> auth_screen" where
  "email_onChange raw st = st\<lparr>userEmail := raw\<rparr>"

text \<open>
  \<open>onSubmit\<close> of the sign-in form. \<open>setIsLoading(true)\<close> comes first and the
  \<open>finally\<close> block resets it on both paths.
\<close>

definition signIn_onSubmit ::
  "(request \<Rightarrow> unit api_result) \<Rightarrow> jsstring \<Rightarrow> auth_screen \<Rightarrow> auth_screen \<times> event list" where
  "signIn_onSubmit api email st =
     (let st1 = st\<lparr>isLoading := True\<rparr>;
          req = Post ''/auth/login'' [(''email'', email)] in
      case api req of
        Fulfilled r \<Rightarrow>
          (st1\<lparr>userEmail := email, showOTP := True, isLoading := False\<rparr>,
           [ApiCall req, ToastSuccess (Lit ''OTP sent to your email for login verification'')])
      | Rejected error \<Rightarrow>
          (st1\<lparr>isLoading := False\<rparr>, [ApiCall req, ToastError (message_or error ''Login failed'')]))"

text \<open>
  \<open>onSubmit\<close> of the sign-up form. \<^verbatim>\<open>data.dateOfBirth || undefined\<close> leaves an empty
  date out of the body. \<open>string_includes s t\<close> is \<^verbatim>\<open>s.includes(t)\<close>.
\<close>

record SignUpForm =
  form_name :: jsstring
  form_email :: jsstring
  form_dateOfBirth :: jsstring
  agreeToTerms :: bool

definition string_includes :: "jsstring \<Rightarrow> jsstring \<Rightarrow> bool" where
  "string_includes s t = list_ex (\<lambda>i. take (length t) (drop i s) = t) [0..<Suc (length s)]"

definition registration_error_text :: "err_data axios_error \<Rightarrow> toast_text" where
  "registration_error_text error =
     (case (case error_response error of None \<Rightarrow> None | Some r \<Rightarrow> errors (data r)) of
        Some errs \<Rightarrow>
          (case find (\<lambda>err. fst err = js ''email'') errs of
             Some emailError \<Rightarrow>
               if string_includes (snd emailError) (js ''already exists'')
               then Lit ''This email is already registered. Please use a different email or try signing in instead.''
               else message_or error ''Registration failed''
           | None \<Rightarrow> message_or error ''Registration failed'')
      | None \<Rightarrow> message_or error ''Registration failed'')"

definition signUp_onSubmit ::
  "(request \<Rightarrow> unit api_result) \<Rightarrow> SignUpForm \<Rightarrow> auth_screen \<Rightarrow> auth_screen \<times> event list" where
  "signUp_onSubmit api form st =
     (let st1 = st\<lparr>isLoading := True\<rparr>;
          req = Post ''/auth/register''
                  ([(''name'', form_name form), (''email'', form_email form)] @
                   (if form_dateOfBirth form = [] then []
                    else [(''dateOfBirth'', form_dateOfBirth form)])) in
      case api req of
        Fulfilled r \<Rightarrow>
          (st1\<lparr>userEmail := form_email form, showOTP := True, isLoading := False\<rparr>,
           [ApiCall req,
            ToastSuccess (Lit ''Registration successful! Please check your email for OTP verification.'')])
      | Rejected error \<Rightarrow>
          (st1\<lparr>isLoading := False\<rparr>, [ApiCall req, ToastError (registration_error_text error)]))"

section \<open>Dashboard (pages/Dashboard)\<close>

record Note =
  note_id :: jsstring
  note_title :: jsstring
  note_content :: jsstring
  createdAt :: jsstring
  updatedAt :: jsstring

record formData =
  title :: jsstring
  content :: jsstring

record dashboard =
  notes_cache :: "Note list"
  notesLoading :: bool
  showCreateForm :: bool
  formData :: formData

text \<open>\<open>String.prototype.trim\<close> strips the white space of both ends.\<close>

definition trim :: "jsstring \<Rightarrow> jsstring" where
  "trim s = rev (dropWhile isWhiteSpace (rev (dropWhile isWhiteSpace s)))"

text \<open>
  \<open>handleCreateNote\<close>, in its two parts. The first runs at the click, up to the
  \<open>await\<close>: it either stops at the guard, or issues the request and suspends. It sets no
  state. What it hands to its second part is the \<open>notes\<close> of the render in which the form
  was submitted: \<open>notes\<close> is a constant of that render's closure, not the list the cache
  holds when the reply arrives. The body of the request is \<open>formData\<close> as typed,
  untrimmed.
\<close>

definition handleCreateNote :: "dashboard \<Rightarrow> event list \<times> (request \<times> Note list) option" where
  "handleCreateNote st =
     (if trim (title (formData st)) = [] \<or> trim (content (formData st)) = []
      then ([ToastError (Lit ''Please fill in all fields'')], None)
      else
        let req = Post ''/notes''
                    [(''title'', title (formData st)), (''content'', content (formData st))] in
        ([ApiCall req], Some (req, notes_cache st)))"

text \<open>
  The second part runs when the request settles, on the dashboard's state of that
  moment: \<^verbatim>\<open>setNotes([response.data.note, ...notes])\<close> with the closure's \<open>notes\<close>, then
  the form is reset and closed; or the \<open>catch\<close>. The body of the reply is \<open>{ note }\<close>.
\<close>

definition handleCreateNote_resume ::
  "Note list \<Rightarrow> Note api_result \<Rightarrow> dashboard \<Rightarrow> dashboard \<times> event list" where
  "handleCreateNote_resume closure_notes outcome cur =
     (case outcome of
        Fulfilled r \<Rightarrow>
          (cur\<lparr>notes_cache := data r # closure_notes,
               formData := \<lparr>title = [], content = []\<rparr>,
               showCreateForm := False\<rparr>,
           [ToastSuccess (Lit ''Note created successfully!'')])
      | Rejected error \<Rightarrow>
          (cur, [ToastError (message_or error ''Failed to create note'')]))"

section \<open>Requests and outcomes named in the statements\<close>

text \<open>
  The request each handler builds, and whether a settled promise is fulfilled.
\<close>

definition resend_request :: "auth_screen \<Rightarrow> request" where
  "resend_request st = Post ''/auth/request-otp'' [(''email'', userEmail st)]"

definition verify_request :: "auth_screen \<Rightarrow> request" where
  "verify_request st = Post ''/auth/verify-otp'' [(''email'', userEmail st), (''otp'', otp st)]"

definition create_request :: "dashboard \<Rightarrow> request" where
  "create_request st =
     Post ''/notes'' [(''title'', title (formData st)), (''content'', content (formData st))]"

definition fulfilled :: "('d, 'e) settled \<Rightarrow> bool" where
  "fulfilled p = (case p of Fulfilled r \<Rightarrow> True | Rejected error \<Rightarrow> False)"

section \<open>The life of an auth screen\<close>

text \<open>
  What can happen to a mounted screen, with what the clock and the server answer: the
  two forms' submissions, typing in the email and OTP fields, and the three buttons of
  the OTP view. A disabled resend button fires no click. A screen's state is what a
  sequence of these makes of the initial one.
\<close>

datatype auth_action =
    SignInSubmit jsstring "unit api_result"
  | SignUpSubmit SignUpForm "unit api_result"
  | EmailChange jsstring
  | OtpChange jsstring
  | ResendClick int "unit api_result"
  | VerifyClick "auth_payload api_result"
  | BackClick

fun auth_step :: "auth_screen \<Rightarrow> auth_action \<Rightarrow> auth_screen" where
  "auth_step st (SignInSubmit email out) = fst (signIn_onSubmit (\<lambda>_. out) email st)"
| "auth_step st (SignUpSubmit form out) = fst (signUp_onSubmit (\<lambda>_. out) form st)"
| "auth_step st (EmailChange raw) = email_onChange raw st"
| "auth_step st (OtpChange raw) = otp_onChange raw st"
| "auth_step st (ResendClick now out) =
     (if resend_disabled st then st else fst (handleOTPRequest (\<lambda>_. out) now st))"
| "auth_step st (VerifyClick out) = fst (handleOTPVerification (\<lambda>_. out) st)"
| "auth_step st BackClick = back_onClick st"

definition auth_run :: "auth_action list \<Rightarrow> auth_screen" where
  "auth_run acts = foldl auth_step auth_screen_init acts"

text \<open>
  What the rendered view offers. The form view (\<open>showOTP\<close> false) has the forms and the
  email field; the OTP view has the OTP field and the three buttons. Both forms register
  the email field with \<open>formValidationRules.email\<close>, whose \<open>required\<close> rule keeps
  \<open>handleSubmit\<close> from calling \<open>onSubmit\<close> with an empty email.
\<close>

fun offered :: "auth_screen \<Rightarrow> auth_action \<Rightarrow> bool" where
  "offered st (SignInSubmit email out) = (\<not> showOTP st \<and> email \<noteq> [])"
| "offered st (SignUpSubmit form out) = (\<not> showOTP st \<and> form_email form \<noteq> [])"
| "offered st (EmailChange raw) = (\<not> showOTP st)"
| "offered st (OtpChange raw) = showOTP st"
| "offered st (ResendClick now out) = showOTP st"
| "offered st (VerifyClick out) = showOTP st"
| "offered st BackClick = showOTP st"

definition ui_step :: "auth_screen \<Rightarrow> auth_action \<Rightarrow> auth_screen" where
  "ui_step st a = (if offered st a then auth_step st a else st)"

definition ui_run :: "auth_action list \<Rightarrow> auth_screen" where
  "ui_run acts = foldl ui_step auth_screen_init acts"

section \<open>Regular expressions: what they decide\<close>

text \<open>
  \<open>before_break Q s\<close>: a code unit of class \<open>Q\<close> occurs in \<open>s\<close> with no line
  terminator before it. This is what the lookahead \<open>(?=.*Q)\<close> decides at the start
  of \<open>s\<close>.
\<close>

fun before_break :: "(jschar \<Rightarrow> bool) \<Rightarrow> jsstring \<Rightarrow> bool" where
  "before_break Q [] = False"
| "before_break Q (c # cs) = (Q c \<or> (dot c \<and> before_break Q cs))"

section \<open>Lemmas on the matcher\<close>

lemma rests_Eoi_iff: "rests (Cat a Eoi) s \<noteq> [] \<longleftrightarrow> [] \<in> set (rests a s)"
  by (induction "rests a s" arbitrary: s) auto

lemma rests_Many_nil: "[] \<in> set (rests (Many P) s) \<longleftrightarrow> list_all P s"
  by (induction s) auto

lemma rests_exactly_Cls:
  "set (rests (exactly n (Cls P)) s) =
     (if n \<le> length s \<and> list_all P (take n s) then {drop n s} else {})"
proof (induction n arbitrary: s)
  case 0
  show ?case by simp
next
  case (Suc n)
  show ?case by (cases s) (auto simp: Suc)
qed

lemma test_otpRegex: "test_anchored otpRegex s = (length s = 6 \<and> list_all isDigit s)"
  by (auto simp: test_anchored_def otpRegex_def rests_Eoi_iff rests_exactly_Cls split: if_splits)

lemma test_nameRegex: "test_anchored nameRegex s = (s \<noteq> [] \<and> list_all isNameChar s)"
  by (cases s) (auto simp: test_anchored_def nameRegex_def Many1_def rests_Eoi_iff rests_Many_nil)

lemma rests_lookahead: "rests (Cat (Many dot) (Cls Q)) s \<noteq> [] \<longleftrightarrow> before_break Q s"
  by (induction s) auto

lemma test_passwordRegex:
  "test_anchored passwordRegex s =
     (before_break isLower s \<and> before_break isUpper s \<and> before_break isDigit s \<and>
      before_break isSymbol s \<and> (case s of [] \<Rightarrow> False | c # cs \<Rightarrow> isPasswordChar c))"
  unfolding test_anchored_def passwordRegex_def
  using rests_lookahead [of isLower s] rests_lookahead [of isUpper s]
    rests_lookahead [of isDigit s] rests_lookahead [of isSymbol s]
  by (cases s) (auto simp del: rests.simps(3) simp add: rests.simps(3) [of "Ahead _"])

lemma before_break_ex: "before_break Q s \<Longrightarrow> list_ex Q s"
  by (induction s) auto

lemma before_break_one_line: "list_all dot s \<Longrightarrow> before_break Q s = list_ex Q s"
  by (induction s) auto

section \<open>Lemmas on the handlers\<close>

lemma network_calls_simps [simp]:
  "network_calls [] = []"
  "network_calls (ApiCall r # evs) = r # network_calls evs"
  "network_calls (ToastError t # evs) = network_calls evs"
  "network_calls (ToastSuccess t # evs) = network_calls evs"
  "network_calls (Login k u # evs) = network_calls evs"
  "network_calls (Navigate p # evs) = network_calls evs"
  by (simp_all add: network_calls_def)

lemma replace_all_nondigits: "replace_all isNonDigit [] raw = filter isDigit raw"
  by (induction raw) (auto simp: replace_all_def isNonDigit_def)

lemma otp_auth_step: "list_all isDigit (otp st) \<Longrightarrow> list_all isDigit (otp (auth_step st a))"
  by (cases a)
     (auto simp: signIn_onSubmit_def signUp_onSubmit_def email_onChange_def otp_onChange_def
        handleOTPRequest_def handleOTPVerification_def back_onClick_def Let_def
        replace_all_nondigits list_all_iff split: settled.splits)

lemma otp_foldl: "list_all isDigit (otp st) \<Longrightarrow> list_all isDigit (otp (foldl auth_step st acts))"
  by (induction acts arbitrary: st) (simp_all add: otp_auth_step)

text \<open>The ceiling of the division, in integer arithmetic.\<close>

lemma remainingTime_div: "remainingTime t now = - ((now - t - 60 * 1000) div 1000)"
  unfolding remainingTime_def
  using ceiling_divide_eq_div [where 'a = real, of "t + 60 * 1000 - now" 1000]
  by (simp add: algebra_simps)

text \<open>
  What \<open>validatePassword\<close> decides: besides the length, each of the four classes must
  occur before the first line terminator, and the first code unit must belong to
  \<open>[A-Za-z\d@$!%*?&]\<close>. So the validator accepts only passwords that contain the four
  classes, but not all of them.
\<close>

lemma validatePassword_iff:
  "validatePassword s =
     (length s \<ge> 8 \<and> before_break isLower s \<and> before_break isUpper s \<and>
      before_break isDigit s \<and> before_break isSymbol s \<and>
      (case s of [] \<Rightarrow> False | c # cs \<Rightarrow> isPasswordChar c))"
  by (simp add: validatePassword_def test_passwordRegex)

lemma validatePassword_sound: "validatePassword s \<Longrightarrow> spec_validatePassword s"
  by (simp add: validatePassword_iff spec_validatePassword_def before_break_ex)

section \<open>Lemmas on the life of a screen\<close>

text \<open>
  In the OTP view an email is recorded: the view is entered only by a submission, which
  records the submitted email, and the form lets no empty email through.
\<close>

lemma email_ui_step:
  "(showOTP st \<longrightarrow> userEmail st \<noteq> []) \<Longrightarrow>
   (showOTP (ui_step st a) \<longrightarrow> userEmail (ui_step st a) \<noteq> [])"
  by (cases a)
     (auto simp: ui_step_def signIn_onSubmit_def signUp_onSubmit_def email_onChange_def
        otp_onChange_def handleOTPRequest_def handleOTPVerification_def back_onClick_def Let_def
        split: settled.splits if_splits)

lemma email_foldl:
  "(showOTP st \<longrightarrow> userEmail st \<noteq> []) \<Longrightarrow>
   (showOTP (foldl ui_step st acts) \<longrightarrow> userEmail (foldl ui_step st acts) \<noteq> [])"
proof (induction acts arbitrary: st)
  case Nil
  then show ?case by simp
next
  case (Cons a acts)
  from Cons.prems have "showOTP (ui_step st a) \<longrightarrow> userEmail (ui_step st a) \<noteq> []"
    by (rule email_ui_step)
  then show ?case
    using Cons.IH [of "ui_step st a"] by simp
qed

lemma otp_view_has_email: "showOTP (ui_run acts) \<Longrightarrow> userEmail (ui_run acts) \<noteq> []"
  using email_foldl [of auth_screen_init acts]
  by (simp add: ui_run_def auth_screen_init_def)

text \<open>The wait is the least number of whole seconds that covers what is left of the minute.\<close>

lemma remainingTime_bounds:
  "1000 * (remainingTime t now - 1) < t + 60 * 1000 - now \<and>
   t + 60 * 1000 - now \<le> 1000 * remainingTime t now"
proof -
  define d where "d = now - t - 60 * 1000"
  have "d div 1000 * 1000 \<le> d" and "d < d div 1000 * 1000 + 1000"
    by (simp_all add: div_mult_self_is_m zdiv_mono1 pos_mod_bound pos_mod_sign
        minus_mod_eq_div_mult [symmetric] div_mult_mod_eq)+
  then show ?thesis
    unfolding remainingTime_div d_def by simp
qed

text \<open>
  The third guard of \<open>handleOTPVerification\<close> never fires on a stored OTP of digits only:
  such a string of length 6 passes the expression.
\<close>

lemma numeric_only_unreachable:
  "list_all isDigit (otp st) \<Longrightarrow>
   ToastError (Lit ''OTP must contain only numbers'') \<notin> set (snd (handleOTPVerification api st))"
  by (auto simp: handleOTPVerification_def test_otpRegex Let_def message_or_def
      split: settled.splits option.splits if_splits)

lemma typed_12a456: "replace_all isNonDigit [] (js ''12a456'') = js ''12456''"
  by (simp add: replace_all_def js_def isNonDigit_def isDigit_def)

section \<open>Lemmas on note creation\<close>

text \<open>
  What holds of \<open>handleCreateNote\<close> in every run: the guard stops an empty field before
  any request; the cache is set only in the second part and only on a fulfilled request;
  and when the cache at the reply is still the list of the click, the reply's note is
  put in front of it.
\<close>

lemma handleCreateNote_guard:
  "trim (title (formData st)) = [] \<or> trim (content (formData st)) = [] \<Longrightarrow>
   handleCreateNote st = ([ToastError (Lit ''Please fill in all fields'')], None)"
  by (simp add: handleCreateNote_def)

lemma handleCreateNote_suspends:
  "trim (title (formData st)) \<noteq> [] \<Longrightarrow> trim (content (formData st)) \<noteq> [] \<Longrightarrow>
   handleCreateNote st = ([ApiCall (create_request st)], Some (create_request st, notes_cache st))"
  by (simp add: handleCreateNote_def create_request_def Let_def)

lemma handleCreateNote_resume_fulfilled:
  "notes_cache (fst (handleCreateNote_resume closure_notes (Fulfilled r) cur)) =
     data r # closure_notes"
  by (simp add: handleCreateNote_resume_def)

lemma handleCreateNote_resume_rejected:
  "fst (handleCreateNote_resume closure_notes (Rejected error) cur) = cur"
  by (simp add: handleCreateNote_resume_def)

lemma handleCreateNote_undisturbed:
  "handleCreateNote st = (evs, Some (req, closure_notes)) \<Longrightarrow> notes_cache cur = notes_cache st \<Longrightarrow>
   notes_cache (fst (handleCreateNote_resume closure_notes (Fulfilled r) cur)) =
     data r # notes_cache cur"
  by (auto simp: handleCreateNote_def handleCreateNote_resume_def Let_def split: if_splits)

section \<open>The claims\<close>

text \<open>
  C1. A reply with status 401 makes the response interceptor remove the persisted token
  and set the location to the sign-in screen, and the error still reaches the caller. A
  reply with any other status leaves the storage and the location as they were and
  reaches the caller as axios settled it: fulfilled for a status from 200 to 299,
  rejected with the response otherwise. A request with no reply is rejected and changes
  nothing either.
\<close>

theorem api_response_interceptor_401:
  "(status (r :: 'd response) = 401 \<longrightarrow>
      receive (Reply r) b =
        ((removeItem (js ''token'') b)\<lparr>location_href := js ''/signin''\<rparr>,
         Rejected (AxiosError (Some r))) \<and>
      localStorage (fst (receive (Reply r) b)) (js ''token'') = None \<and>
      location_href (fst (receive (Reply r) b)) = js ''/signin'') \<and>
   (status r \<noteq> 401 \<longrightarrow>
      receive (Reply r) b =
        (b, if validateStatus (status r) then Fulfilled r else Rejected (AxiosError (Some r)))) \<and>
   receive (NoReply :: 'd reply) b = (b, Rejected (AxiosError None))"
  by (simp add: receive_def settle_def response_interceptor_def response_onRejected_def
      response_onFulfilled_def validateStatus_def removeItem_def)

theorem api_response_interceptor_401_witness:
  "localStorage (fst (receive (Reply \<lparr>status = 401, data = ()\<rparr>)
      \<lparr>localStorage = [js ''token'' \<mapsto> js ''abc''], location_href = js ''/dashboard''\<rparr>))
     (js ''token'') = None \<and>
   location_href (fst (receive (Reply \<lparr>status = 401, data = ()\<rparr>)
      \<lparr>localStorage = [js ''token'' \<mapsto> js ''abc''], location_href = js ''/dashboard''\<rparr>))
     = js ''/signin'' \<and>
   snd (receive (Reply \<lparr>status = 401, data = ()\<rparr>)
      \<lparr>localStorage = [js ''token'' \<mapsto> js ''abc''], location_href = js ''/dashboard''\<rparr>)
     = Rejected (AxiosError (Some \<lparr>status = 401, data = ()\<rparr>)) \<and>
   location_href (fst (receive (Reply \<lparr>status = 500, data = ()\<rparr>)
      \<lparr>localStorage = [js ''token'' \<mapsto> js ''abc''], location_href = js ''/dashboard''\<rparr>))
     = js ''/dashboard'' \<and>
   localStorage (fst (receive (Reply \<lparr>status = 500, data = ()\<rparr>)
      \<lparr>localStorage = [js ''token'' \<mapsto> js ''abc''], location_href = js ''/dashboard''\<rparr>))
     (js ''token'') = Some (js ''abc'')"
  using api_response_interceptor_401 [of "\<lparr>status = 401, data = ()\<rparr>"
      "\<lparr>localStorage = [js ''token'' \<mapsto> js ''abc''], location_href = js ''/dashboard''\<rparr>"]
    api_response_interceptor_401 [of "\<lparr>status = 500, data = ()\<rparr>"
      "\<lparr>localStorage = [js ''token'' \<mapsto> js ''abc''], location_href = js ''/dashboard''\<rparr>"]
  by (simp add: validateStatus_def removeItem_def)

text \<open>
  C2, as the code has it. When the stored OTP is not exactly six digits,
  \<open>handleOTPVerification\<close> leaves the screen's state as it was (the OTP view stays),
  issues no request and only shows an error toast. A request is issued only for six
  digits, and then it is the verify-otp request. The input \<open>12a456\<close>, typed into the OTP
  field, is stored as \<open>12456\<close> and answered with the exactly-6-digits message (with the
  enter-OTP-and-email message if no email is recorded, which the OTP view excludes:
  \<open>otp_view_has_email\<close>). The numeric-only message is shown in no state of a screen's
  life, since the stored OTP never holds a non-digit.
\<close>

theorem handleOTPVerification_rejects_locally:
  "(\<not> (length (otp st) = 6 \<and> list_all isDigit (otp st)) \<longrightarrow>
      fst (handleOTPVerification api st) = st \<and>
      network_calls (snd (handleOTPVerification api st)) = [] \<and>
      (\<exists>t. snd (handleOTPVerification api st) = [ToastError (Lit t)])) \<and>
   (network_calls (snd (handleOTPVerification api st)) \<noteq> [] \<longrightarrow>
      length (otp st) = 6 \<and> list_all isDigit (otp st) \<and>
      network_calls (snd (handleOTPVerification api st)) = [verify_request st]) \<and>
   handleOTPVerification api (otp_onChange (js ''12a456'') st) =
     (otp_onChange (js ''12a456'') st,
      [ToastError (Lit (if userEmail st = [] then ''Please enter OTP and email''
                        else ''OTP must be exactly 6 digits''))]) \<and>
   ToastError (Lit ''OTP must contain only numbers'')
     \<notin> set (snd (handleOTPVerification api (auth_run acts)))"
proof -
  have a: "\<not> (length (otp st) = 6 \<and> list_all isDigit (otp st)) \<longrightarrow>
      fst (handleOTPVerification api st) = st \<and>
      network_calls (snd (handleOTPVerification api st)) = [] \<and>
      (\<exists>t. snd (handleOTPVerification api st) = [ToastError (Lit t)])"
    by (auto simp: handleOTPVerification_def test_otpRegex Let_def)
  have b: "network_calls (snd (handleOTPVerification api st)) \<noteq> [] \<longrightarrow>
      length (otp st) = 6 \<and> list_all isDigit (otp st) \<and>
      network_calls (snd (handleOTPVerification api st)) = [verify_request st]"
    by (auto simp: handleOTPVerification_def test_otpRegex Let_def verify_request_def
        split: settled.splits)
  have c: "handleOTPVerification api (otp_onChange (js ''12a456'') st) =
     (otp_onChange (js ''12a456'') st,
      [ToastError (Lit (if userEmail st = [] then ''Please enter OTP and email''
                        else ''OTP must be exactly 6 digits''))])"
    unfolding otp_onChange_def typed_12a456
    by (simp add: handleOTPVerification_def js_def)
  have "list_all isDigit (otp (auth_run acts))"
    unfolding auth_run_def by (rule otp_foldl) (simp add: auth_screen_init_def)
  then have d: "ToastError (Lit ''OTP must contain only numbers'')
     \<notin> set (snd (handleOTPVerification api (auth_run acts)))"
    by (rule numeric_only_unreachable)
  from a b c d show ?thesis by blast
qed

theorem handleOTPVerification_rejects_locally_witness:
  "handleOTPVerification (\<lambda>_. Rejected (AxiosError None))
     (otp_onChange (js ''12a456'')
       \<lparr>isLoading = False, showOTP = True, otp = [], userEmail = js ''jane@example.com'',
        otpRequestCount = 0, lastOtpRequest = None\<rparr>) =
   (\<lparr>isLoading = False, showOTP = True, otp = js ''12456'', userEmail = js ''jane@example.com'',
      otpRequestCount = 0, lastOtpRequest = None\<rparr>,
    [ToastError (Lit ''OTP must be exactly 6 digits'')]) \<and>
   network_calls (snd (handleOTPVerification (\<lambda>_. Rejected (AxiosError None))
     \<lparr>isLoading = False, showOTP = True, otp = js ''123456'', userEmail = js ''jane@example.com'',
      otpRequestCount = 0, lastOtpRequest = None\<rparr>)) =
   [Post ''/auth/verify-otp'' [(''email'', js ''jane@example.com''), (''otp'', js ''123456'')]]"
  using handleOTPVerification_rejects_locally [of
      "\<lparr>isLoading = False, showOTP = True, otp = [], userEmail = js ''jane@example.com'',
        otpRequestCount = 0, lastOtpRequest = None\<rparr>" "\<lambda>_. Rejected (AxiosError None)" "[]"]
    handleOTPVerification_rejects_locally [of
      "\<lparr>isLoading = False, showOTP = True, otp = js ''123456'', userEmail = js ''jane@example.com'',
        otpRequestCount = 0, lastOtpRequest = None\<rparr>" "\<lambda>_. Rejected (AxiosError None)" "[]"]
  by (simp add: js_def handleOTPVerification_def test_otpRegex isDigit_def Let_def
      verify_request_def otp_onChange_def replace_all_def isNonDigit_def)

text \<open>
  C2 as stated fails in its last sentence: after a sign-in submission for
  \<open>jane@example.com\<close> and \<open>12a456\<close> typed into the OTP field, the screen is in the OTP
  view with \<open>12456\<close> stored, and verification answers with the exactly-6-digits message,
  not with the numeric-only one.
\<close>

theorem typed_12a456_counterexample:
  "snd (handleOTPVerification (\<lambda>_. Rejected (AxiosError None))
     (auth_run [SignInSubmit (js ''jane@example.com'') (Fulfilled \<lparr>status = 200, data = ()\<rparr>),
                OtpChange (js ''12a456'')])) =
     [ToastError (Lit ''OTP must be exactly 6 digits'')] \<and>
   snd (handleOTPVerification (\<lambda>_. Rejected (AxiosError None))
     (auth_run [SignInSubmit (js ''jane@example.com'') (Fulfilled \<lparr>status = 200, data = ()\<rparr>),
                OtpChange (js ''12a456'')])) \<noteq>
     [ToastError (Lit ''OTP must contain only numbers'')] \<and>
   showOTP (auth_run [SignInSubmit (js ''jane@example.com'') (Fulfilled \<lparr>status = 200, data = ()\<rparr>),
                OtpChange (js ''12a456'')]) \<and>
   otp (auth_run [SignInSubmit (js ''jane@example.com'') (Fulfilled \<lparr>status = 200, data = ()\<rparr>),
                OtpChange (js ''12a456'')]) = js ''12456''"
  unfolding auth_run_def auth_screen_init_def
  by (simp add: signIn_onSubmit_def otp_onChange_def typed_12a456 Let_def)
     (simp add: handleOTPVerification_def js_def)

text \<open>
  C3. Once \<open>otpRequestCount\<close> is at least 5, \<open>handleOTPRequest\<close> changes nothing and
  issues no request, whatever the clock and the last request's time are, and the resend
  button is rendered disabled, whatever the last request's time is.
\<close>

theorem resend_blocked_at_limit:
  "otpRequestCount st \<ge> 5 \<Longrightarrow>
     fst (handleOTPRequest api now st) = st \<and>
     network_calls (snd (handleOTPRequest api now st)) = [] \<and>
     resend_disabled st \<and>
     resend_disabled (st\<lparr>lastOtpRequest := l\<rparr>)"
  by (simp add: handleOTPRequest_def Let_def resend_disabled_def)

theorem resend_blocked_at_limit_witness:
  "handleOTPRequest (\<lambda>_. Fulfilled \<lparr>status = 200, data = ()\<rparr>) 900000
     \<lparr>isLoading = False, showOTP = True, otp = [], userEmail = js ''jane@example.com'',
      otpRequestCount = 5, lastOtpRequest = Some 60000\<rparr> =
   (\<lparr>isLoading = False, showOTP = True, otp = [], userEmail = js ''jane@example.com'',
      otpRequestCount = 5, lastOtpRequest = Some 60000\<rparr>,
    [ToastError (Lit ''Too many OTP requests. Please try again later.'')]) \<and>
   resend_disabled
     \<lparr>isLoading = False, showOTP = True, otp = [], userEmail = js ''jane@example.com'',
      otpRequestCount = 5, lastOtpRequest = Some 60000\<rparr>"
  using resend_blocked_at_limit [of
      "\<lparr>isLoading = False, showOTP = True, otp = [], userEmail = js ''jane@example.com'',
        otpRequestCount = 5, lastOtpRequest = Some 60000\<rparr>"
      "\<lambda>_. Fulfilled \<lparr>status = 200, data = ()\<rparr>" 900000 "Some 60000"]
  by (simp add: handleOTPRequest_def Let_def js_def)

text \<open>
  C4. The claim is that \<open>validatePassword\<close> accepts exactly the strings of length at
  least 8 that contain a lowercase letter, an uppercase letter, a digit and a symbol of
  \<open>@$!%*?&\<close>. The password \<open>#Abcdef1@\<close> is such a string and the validator rejects
  it: the class that ends \<open>passwordRegex\<close> has no quantifier, so it constrains the
  first code unit only. (The other direction holds: \<open>validatePassword_sound\<close>.)
\<close>

theorem validatePassword_leading_hash:
  "spec_validatePassword (js ''#Abcdef1@'') \<and> \<not> validatePassword (js ''#Abcdef1@'')"
  by (simp add: validatePassword_def test_anchored_def passwordRegex_def spec_validatePassword_def
      js_def isPasswordChar_def isLower_def isUpper_def isDigit_def isSymbol_def dot_def
      isLineTerminator_def)

text \<open>
  C5, as the code has it. \<open>validateName\<close> accepts exactly the strings of 2 to 50 code
  units that consist of the letters \<open>A\<close> to \<open>Z\<close> and \<open>a\<close> to \<open>z\<close> and of white space
  in the sense of \<open>\s\<close>: not the space alone, but also the tab, the line terminators and
  the other Unicode spaces.
\<close>

theorem validateName_letters_whitespace:
  "validateName s =
     (2 \<le> length s \<and> length s \<le> 50 \<and> list_all (\<lambda>c. isLetter c \<or> isWhiteSpace c) s)"
  by (auto simp: validateName_def test_nameRegex isNameChar_def isLetter_def list_all_iff)

theorem validateName_letters_whitespace_witness:
  "validateName (js ''Jane Doe'') \<and> \<not> validateName (js ''J'') \<and> \<not> validateName (js ''R2D2'')"
  using validateName_letters_whitespace [of "js ''Jane Doe''"]
    validateName_letters_whitespace [of "js ''J''"]
    validateName_letters_whitespace [of "js ''R2D2''"]
  by (simp add: js_def isLetter_def isLower_def isUpper_def isWhiteSpace_def)

text \<open>
  C5 as stated fails: \<open>A\<close>, a tab, \<open>B\<close> is accepted, and the tab is neither a letter
  nor a space.
\<close>

theorem validateName_tab_counterexample:
  "validateName [0x41, 0x09, 0x42] \<and> \<not> spec_validateName [0x41, 0x09, 0x42]"
  by (simp add: validateName_def test_anchored_def nameRegex_def Many1_def isNameChar_def
      spec_validateName_def isLetter_def isLower_def isUpper_def isWhiteSpace_def)

text \<open>
  C6. \<open>validateOTP\<close> accepts every string of exactly six digits and rejects every string
  whose length is not 6 or that contains a code unit that is not a digit.
\<close>

theorem validateOTP_six_digits:
  "(length s = 6 \<and> list_all isDigit s \<longrightarrow> validateOTP s) \<and>
   (length s \<noteq> 6 \<or> list_ex isNonDigit s \<longrightarrow> \<not> validateOTP s)"
  by (auto simp: validateOTP_def test_otpRegex isNonDigit_def list_all_iff list_ex_iff)

theorem validateOTP_six_digits_witness:
  "validateOTP (js ''123456'') \<and> \<not> validateOTP (js ''12a456'') \<and> \<not> validateOTP (js ''12345'')"
  using validateOTP_six_digits [of "js ''123456''"] validateOTP_six_digits [of "js ''12a456''"]
    validateOTP_six_digits [of "js ''12345''"]
  by (simp add: js_def isDigit_def isNonDigit_def)

text \<open>
  C7. The claim is that an empty trimmed field is rejected with no request and no change
  of the cache, that the cache changes only after the server confirms, and that on
  confirmation the reply's note is put in front of the cached list, the rest of the list
  unchanged. The first two hold in every run (\<open>handleCreateNote_guard\<close>,
  \<open>handleCreateNote_resume_rejected\<close>), and the third holds when the cache at the reply
  is still the list of the click (\<open>handleCreateNote_undisturbed\<close>). It fails when
  something lands in between: the second part prepends to the \<open>notes\<close> of the click's
  render. With the form submitted twice before the first reply, on a cache holding
  \<open>n0\<close>: both submissions suspend with \<open>[n0]\<close>; the first reply makes the cache
  \<open>[n1, n0]\<close>; the second makes it \<open>[n2, n0]\<close>, and \<open>n1\<close> is lost from the cache.
\<close>

theorem handleCreateNote_overlapping_submits:
  "(let n0 = \<lparr>note_id = js ''n0'', note_title = js ''Old'', note_content = js ''x'',
               createdAt = js ''t0'', updatedAt = js ''t0''\<rparr>;
        n1 = \<lparr>note_id = js ''n1'', note_title = js ''Shopping'', note_content = js ''Milk'',
               createdAt = js ''t1'', updatedAt = js ''t1''\<rparr>;
        n2 = \<lparr>note_id = js ''n2'', note_title = js ''Shopping'', note_content = js ''Milk'',
               createdAt = js ''t2'', updatedAt = js ''t2''\<rparr>;
        st0 = \<lparr>notes_cache = [n0], notesLoading = False, showCreateForm = True,
                formData = \<lparr>title = js ''Shopping'', content = js ''Milk''\<rparr>\<rparr>;
        st1 = fst (handleCreateNote_resume [n0] (Fulfilled \<lparr>status = 201, data = n1\<rparr>) st0);
        st2 = fst (handleCreateNote_resume [n0] (Fulfilled \<lparr>status = 201, data = n2\<rparr>) st1)
    in snd (handleCreateNote st0) = Some (create_request st0, [n0]) \<and>
       notes_cache st1 = [n1, n0] \<and>
       notes_cache st2 = [n2, n0] \<and>
       notes_cache st2 \<noteq> n2 # notes_cache st1)"
  by (simp add: Let_def handleCreateNote_def handleCreateNote_resume_def create_request_def
      trim_def isWhiteSpace_def js_def)

text \<open>
  C8. While less than 60 seconds have passed since the last request, \<open>handleOTPRequest\<close>
  changes nothing and issues no request, and with an email recorded, as the OTP view
  has it (\<open>otp_view_has_email\<close>), what it shows is the wait \<open>remainingTime\<close>; from 60
  seconds on the time does not block the request. The wait is the ceiling of what is
  left of the minute, in seconds: the least \<open>w\<close> with \<open>lastRequest + 60 s - now \<le> w s\<close>.
  So for a last request between 29 and 31 seconds in the past the wait is between 29
  and 31, and for one exactly 30 seconds in the past it is 30.
\<close>

theorem resend_throttled_within_a_minute:
  "lastOtpRequest st = Some t \<Longrightarrow>
     (now - t < 60 * 1000 \<longrightarrow>
        fst (handleOTPRequest api now st) = st \<and>
        network_calls (snd (handleOTPRequest api now st)) = [] \<and>
        (userEmail st \<noteq> [] \<longrightarrow>
           snd (handleOTPRequest api now st) =
             [ToastError (PleaseWait (remainingTime t now))])) \<and>
     (60 * 1000 \<le> now - t \<and> userEmail st \<noteq> [] \<and> otpRequestCount st < 5 \<longrightarrow>
        network_calls (snd (handleOTPRequest api now st)) = [resend_request st]) \<and>
     1000 * (remainingTime t now - 1) < t + 60 * 1000 - now \<and>
     t + 60 * 1000 - now \<le> 1000 * remainingTime t now \<and>
     (29 * 1000 \<le> now - t \<and> now - t \<le> 31 * 1000 \<longrightarrow>
        29 \<le> remainingTime t now \<and> remainingTime t now \<le> 31) \<and>
     (now - t = 30 * 1000 \<longrightarrow> remainingTime t now = 30)"
proof -
  assume last: "lastOtpRequest st = Some t"
  have blocked: "handleOTPRequest api now st =
        (st, if userEmail st = [] then [ToastError (Lit ''Please enter your email first'')]
             else [ToastError (PleaseWait (remainingTime t now))])"
    if "now - t < 60 * 1000"
    using last that by (simp add: handleOTPRequest_def Let_def)
  have sent: "network_calls (snd (handleOTPRequest api now st)) = [resend_request st]"
    if "60 * 1000 \<le> now - t" "userEmail st \<noteq> []" "otpRequestCount st < 5"
    using last that
    by (simp add: handleOTPRequest_def Let_def resend_request_def split: settled.splits)
  have lo: "1000 * (remainingTime t now - 1) < t + 60 * 1000 - now"
    and hi: "t + 60 * 1000 - now \<le> 1000 * remainingTime t now"
    using remainingTime_bounds [of t now] by simp_all
  have ge: "k \<le> remainingTime t now" if "1000 * k \<le> t + 60 * 1000 - now" for k
  proof -
    from that hi have "1000 * k \<le> 1000 * remainingTime t now" by linarith
    then show ?thesis by simp
  qed
  have le: "remainingTime t now \<le> k" if "t + 60 * 1000 - now \<le> 1000 * k" for k
  proof -
    from that lo have "1000 * (remainingTime t now - 1) < 1000 * k" by linarith
    then have "remainingTime t now - 1 < k" by simp
    then show ?thesis by simp
  qed
  have near: "29 \<le> remainingTime t now \<and> remainingTime t now \<le> 31"
    if "29 * 1000 \<le> now - t" "now - t \<le> 31 * 1000"
    using ge [of 29] le [of 31] that by simp
  have exact: "remainingTime t now = 30" if "now - t = 30 * 1000"
    using ge [of 30] le [of 30] that by simp
  have part1: "now - t < 60 * 1000 \<longrightarrow>
        fst (handleOTPRequest api now st) = st \<and>
        network_calls (snd (handleOTPRequest api now st)) = [] \<and>
        (userEmail st \<noteq> [] \<longrightarrow>
           snd (handleOTPRequest api now st) =
             [ToastError (PleaseWait (remainingTime t now))])"
    using blocked by simp
  from part1 sent lo hi near exact show ?thesis
    by blast
qed

theorem resend_throttled_within_a_minute_witness:
  "handleOTPRequest (\<lambda>_. Fulfilled \<lparr>status = 200, data = ()\<rparr>) 90000
     \<lparr>isLoading = False, showOTP = True, otp = [], userEmail = js ''jane@example.com'',
      otpRequestCount = 1, lastOtpRequest = Some 60000\<rparr> =
   (\<lparr>isLoading = False, showOTP = True, otp = [], userEmail = js ''jane@example.com'',
      otpRequestCount = 1, lastOtpRequest = Some 60000\<rparr>, [ToastError (PleaseWait 30)]) \<and>
   remainingTime 60000 90000 = 30 \<and>
   29 \<le> remainingTime 60000 90001 \<and> remainingTime 60000 90001 \<le> 31 \<and>
   network_calls (snd (handleOTPRequest (\<lambda>_. Fulfilled \<lparr>status = 200, data = ()\<rparr>) 120000
     \<lparr>isLoading = False, showOTP = True, otp = [], userEmail = js ''jane@example.com'',
      otpRequestCount = 1, lastOtpRequest = Some 60000\<rparr>)) =
   [Post ''/auth/request-otp'' [(''email'', js ''jane@example.com'')]]"
  using resend_throttled_within_a_minute [of
      "\<lparr>isLoading = False, showOTP = True, otp = [], userEmail = js ''jane@example.com'',
        otpRequestCount = 1, lastOtpRequest = Some 60000\<rparr>" 60000 90000
      "\<lambda>_. Fulfilled \<lparr>status = 200, data = ()\<rparr>"]
    resend_throttled_within_a_minute [of
      "\<lparr>isLoading = False, showOTP = True, otp = [], userEmail = js ''jane@example.com'',
        otpRequestCount = 1, lastOtpRequest = Some 60000\<rparr>" 60000 90001
      "\<lambda>_. Fulfilled \<lparr>status = 200, data = ()\<rparr>"]
    resend_throttled_within_a_minute [of
      "\<lparr>isLoading = False, showOTP = True, otp = [], userEmail = js ''jane@example.com'',
        otpRequestCount = 1, lastOtpRequest = Some 60000\<rparr>" 60000 120000
      "\<lambda>_. Fulfilled \<lparr>status = 200, data = ()\<rparr>"]
  by (simp add: js_def prod_eq_iff resend_request_def)

text \<open>
  C9. Typing \<open>raw\<close> into the OTP field stores \<open>raw\<close> without its non-digits, whatever
  was stored before, so what is stored then consists of digits only; and at every moment
  of a screen's life the stored OTP consists of digits only.
\<close>

theorem otp_onChange_digits_only:
  "otp (otp_onChange raw st) = filter isDigit raw \<and>
   list_all isDigit (otp (otp_onChange raw st)) \<and>
   list_all isDigit (otp (auth_run acts))"
proof -
  have "list_all isDigit (otp auth_screen_init)"
    by (simp add: auth_screen_init_def)
  then have "list_all isDigit (otp (auth_run acts))"
    unfolding auth_run_def by (rule otp_foldl)
  moreover have "otp (otp_onChange raw st) = filter isDigit raw"
    by (simp add: otp_onChange_def replace_all_nondigits)
  moreover have "list_all isDigit (filter isDigit raw)"
    by (simp add: list_all_iff)
  ultimately show ?thesis by simp
qed

theorem otp_onChange_digits_only_witness:
  "otp (otp_onChange (js ''12a456'') auth_screen_init) = js ''12456'' \<and>
   otp (auth_run [OtpChange (js ''12a456''), BackClick]) = js ''12456''"
  using otp_onChange_digits_only [of "js ''12a456''" auth_screen_init
      "[OtpChange (js ''12a456''), BackClick]"]
  by (simp add: js_def isDigit_def auth_run_def otp_onChange_def replace_all_def isNonDigit_def
      back_onClick_def auth_screen_init_def)

text \<open>
  C10. \<open>handleOTPRequest\<close> adds one to \<open>otpRequestCount\<close> and sets \<open>lastOtpRequest\<close>
  to the time of the attempt when it issued the resend request and the request was
  fulfilled, and changes nothing of the state otherwise (blocked by the throttle, or
  the request rejected). Submitting the sign-in or the sign-up form changes neither
  field, whatever the server answers.
\<close>

theorem throttle_updated_only_on_success:
  "(network_calls (snd (handleOTPRequest api now st)) = [resend_request st] \<and>
    fulfilled (api (resend_request st)) \<longrightarrow>
      fst (handleOTPRequest api now st) =
        st\<lparr>otpRequestCount := otpRequestCount st + 1, lastOtpRequest := Some now\<rparr>) \<and>
   (\<not> (network_calls (snd (handleOTPRequest api now st)) = [resend_request st] \<and>
       fulfilled (api (resend_request st))) \<longrightarrow>
      fst (handleOTPRequest api now st) = st) \<and>
   otpRequestCount (fst (signIn_onSubmit api email st)) = otpRequestCount st \<and>
   lastOtpRequest (fst (signIn_onSubmit api email st)) = lastOtpRequest st \<and>
   otpRequestCount (fst (signUp_onSubmit api form st)) = otpRequestCount st \<and>
   lastOtpRequest (fst (signUp_onSubmit api form st)) = lastOtpRequest st"
  by (auto simp: handleOTPRequest_def signIn_onSubmit_def signUp_onSubmit_def Let_def
      resend_request_def fulfilled_def split: settled.splits)

theorem throttle_updated_only_on_success_witness:
  "fst (handleOTPRequest (\<lambda>_. Fulfilled \<lparr>status = 200, data = ()\<rparr>) 900000
     \<lparr>isLoading = False, showOTP = True, otp = [], userEmail = js ''jane@example.com'',
      otpRequestCount = 1, lastOtpRequest = Some 60000\<rparr>) =
   \<lparr>isLoading = False, showOTP = True, otp = [], userEmail = js ''jane@example.com'',
      otpRequestCount = 2, lastOtpRequest = Some 900000\<rparr> \<and>
   fst (handleOTPRequest (\<lambda>_. Rejected (AxiosError None)) 900000
     \<lparr>isLoading = False, showOTP = True, otp = [], userEmail = js ''jane@example.com'',
      otpRequestCount = 1, lastOtpRequest = Some 60000\<rparr>) =
   \<lparr>isLoading = False, showOTP = True, otp = [], userEmail = js ''jane@example.com'',
      otpRequestCount = 1, lastOtpRequest = Some 60000\<rparr>"
  using throttle_updated_only_on_success [of "\<lambda>_. Fulfilled \<lparr>status = 200, data = ()\<rparr>" 900000
      "\<lparr>isLoading = False, showOTP = True, otp = [], userEmail = js ''jane@example.com'',
        otpRequestCount = 1, lastOtpRequest = Some 60000\<rparr>"]
    throttle_updated_only_on_success [of "\<lambda>_. Rejected (AxiosError None)" 900000
      "\<lparr>isLoading = False, showOTP = True, otp = [], userEmail = js ''jane@example.com'',
        otpRequestCount = 1, lastOtpRequest = Some 60000\<rparr>"]
  by (simp add: fulfilled_def resend_request_def handleOTPRequest_def Let_def js_def)

end
